theory Spec2Isabelle
  imports Complex_Main "HOL-Library.Sublist"
begin

section \<open>The TiDB migration calculator (src/calculator.js)\<close>

text \<open>
  The calculator is one React component. Its state is seven \<open>useState\<close> cells; one effect
  derives the TiDB topology from the PostgreSQL and workload inputs and records a history
  entry when the PostgreSQL instance type changed, the render body prices the cluster, and
  a second effect stores the cost breakdown.

  The numbers held in the state are modelled as exact real numbers (\<open>real\<close>): rounding of
  binary floating point and overflow are outside the model. The values of JavaScript's
  number type that are not real numbers (\<open>Infinity\<close>, \<open>-Infinity\<close>, \<open>NaN\<close>) appear in
  two places, the payback period, where the source writes the literal \<open>Infinity\<close>, and the
  division by \<open>instanceCount\<close>; both are modelled with the type \<open>jsnum\<close>. The concrete
  states evaluated below are chosen so that binary floating point gives the same values.
  Record fields keep the names of the source; where two objects of the source share a
  field name, the later record prefixes it (\<open>pg_\<close> for the PostgreSQL state, \<open>h_\<close> for a
  history entry).
\<close>

subsection \<open>Catalogs\<close>

record instance_type =
  vCPU :: real
  memory :: real
  monthlyCost :: real
  nvme :: "real option"

definition mk :: "real \<Rightarrow> real \<Rightarrow> real \<Rightarrow> instance_type" where
  "mk v m c = \<lparr>vCPU = v, memory = m, monthlyCost = c, nvme = None\<rparr>"

definition mkn :: "real \<Rightarrow> real \<Rightarrow> real \<Rightarrow> real \<Rightarrow> instance_type" where
  "mkn v m c n = \<lparr>vCPU = v, memory = m, monthlyCost = c, nvme = Some n\<rparr>"

definition ec2InstanceTypes :: "string \<Rightarrow> instance_type option" where
  "ec2InstanceTypes = map_of
     [(''c5.2xlarge'', mk 8 16 246),
      (''c5.4xlarge'', mk 16 32 493),
      (''c5.9xlarge'', mk 36 72 1109),
      (''r5.2xlarge'', mk 8 64 387),
      (''r5.4xlarge'', mk 16 128 774),
      (''r5.8xlarge'', mk 32 256 1548),
      (''m5.2xlarge'', mk 8 32 278),
      (''m5.4xlarge'', mk 16 64 556),
      (''i3.2xlarge'', mkn 8 61 499 1900),
      (''i3.4xlarge'', mkn 16 122 998 3800),
      (''i3.8xlarge'', mkn 32 244 1995 7600),
      (''i3en.2xlarge'', mkn 8 64 623 5000),
      (''i3en.3xlarge'', mkn 12 96 935 7500)]"

definition postgresInstanceTypes :: "string \<Rightarrow> instance_type option" where
  "postgresInstanceTypes = map_of
     [(''db.m5.large'', mk 2 8 218),
      (''db.m5.xlarge'', mk 4 16 437),
      (''db.m5.2xlarge'', mk 8 32 874),
      (''db.r5.large'', mk 2 16 276),
      (''db.r5.xlarge'', mk 4 32 552),
      (''db.r5.2xlarge'', mk 8 64 1104),
      (''db.r5.4xlarge'', mk 16 128 2208)]"

record ebs_volume =
  basePrice :: real
  throughputPrice :: "real option"
  iopsPrice :: "real option"

definition gp3 :: ebs_volume where
  "gp3 = \<lparr>basePrice = 8 / 100, throughputPrice = Some (4 / 100), iopsPrice = Some (5 / 1000)\<rparr>"

definition ebsVolumeTypes :: "string \<Rightarrow> ebs_volume option" where
  "ebsVolumeTypes = map_of
     [(''gp3'', gp3),
      (''gp2'', \<lparr>basePrice = 10 / 100, throughputPrice = None, iopsPrice = None\<rparr>),
      (''io1'', \<lparr>basePrice = 125 / 1000, throughputPrice = None, iopsPrice = Some (65 / 1000)\<rparr>),
      (''io2'', \<lparr>basePrice = 125 / 1000, throughputPrice = None, iopsPrice = Some (65 / 1000)\<rparr>)]"

text \<open>
  \<open>table[key]?.field || d\<close>: the default \<open>d\<close> is taken when the key is missing and also
  when the field is falsy, that is \<open>0\<close>.
\<close>

definition or_default :: "instance_type option \<Rightarrow> (instance_type \<Rightarrow> real) \<Rightarrow> real \<Rightarrow> real" where
  "or_default e field d =
     (case e of None \<Rightarrow> d | Some r \<Rightarrow> if field r = 0 then d else field r)"

text \<open>\<open>Math.ceil\<close>, with the result again a number.\<close>

definition ceil :: "real \<Rightarrow> real" where
  "ceil x = of_int \<lceil>x\<rceil>"

subsection \<open>JavaScript numbers\<close>

text \<open>
  A value of JavaScript's number type: a real number, one of the two infinities, or
  \<open>NaN\<close>. All four are numbers (\<open>typeof\<close> gives \<open>"number"\<close>). The operations follow
  IEEE 754 as JavaScript does, except that there is one zero: a zero divisor counts as
  \<open>+0\<close>.
\<close>

datatype jsnum = Finite real | PosInf | NegInf | NaN


fun jneg :: "jsnum \<Rightarrow> jsnum" where
  "jneg (Finite a) = Finite (- a)"
| "jneg PosInf = NegInf"
| "jneg NegInf = PosInf"
| "jneg NaN = NaN"


fun jdiv :: "jsnum \<Rightarrow> jsnum \<Rightarrow> jsnum" where
  "jdiv NaN y = NaN"
| "jdiv x NaN = NaN"
| "jdiv (Finite a) (Finite b) =
     (if b \<noteq> 0 then Finite (a / b)
      else if a > 0 then PosInf else if a < 0 then NegInf else NaN)"
| "jdiv (Finite a) y = Finite 0"
| "jdiv x (Finite b) = (if b \<ge> 0 then x else jneg x)"
| "jdiv x y = NaN"




text \<open>The global \<open>isFinite\<close> on a number.\<close>

fun isFinite :: "jsnum \<Rightarrow> bool" where
  "isFinite (Finite a) = True"
| "isFinite x = False"

text \<open>\<open>String.prototype.startsWith\<close> on a literal prefix.\<close>

definition startsWith :: "string \<Rightarrow> string \<Rightarrow> bool" where
  "startsWith s p = (take (length p) s = p)"

subsection \<open>State\<close>

record postgres_state =
  instanceType :: string
  instanceCount :: real
  storageGB :: real
  iops :: real
  readOps :: real
  writeOps :: real
  pg_monthlyCost :: real
  multiAZ :: bool
  readReplicas :: real

record workload_state =
  readWriteRatio :: string
  type :: string
  dataGrowthRate :: real
  concurrentConnections :: real
  trafficSpikes :: bool
  peakRatio :: real

record tidbCluster_state =
  tidbNodes :: real
  tikvNodes :: real
  pdNodes :: real
  tiflashNodes :: real
  useTiflash :: bool
  eksClusterCount :: real
  k8sWorkerNodes :: real
  availabilityZones :: real
  dataReplicationFactor :: real

record instances_state =
  tidbInstanceType :: string
  tikvInstanceType :: string
  pdInstanceType :: string
  tiflashInstanceType :: string
  monitoringInstanceType :: string

record storage_state =
  tidbEbsType :: string
  tidbEbsSize :: real
  tikvUseInstanceStore :: bool
  tikvAdditionalEbsType :: string
  tikvAdditionalEbsSize :: real
  pdEbsType :: string
  pdEbsSize :: real
  tiflashEbsType :: string
  tiflashEbsSize :: real

record operational_state =
  backupToS3 :: bool
  backupSizeGB :: real
  networkTrafficGB :: real
  eksClusterCost :: real
  eksMonitoringCost :: real
  migrationCost :: real
  operationalFTE :: real

text \<open>
  A history entry. The five \<open>...Change\<close> fields are template strings
  \<open>`${a} \<rightarrow> ${b}`\<close> in the source; the model keeps the two interpolated values as a pair.
\<close>

record history_entry =
  h_id :: nat
  h_from :: string
  h_to :: string
  vcpuChange :: "real \<times> real"
  memoryChange :: "real \<times> real"
  tidbNodesChange :: "real \<times> real"
  tikvNodesChange :: "real \<times> real"
  instanceTypeChange :: "string \<times> string"
  h_tidbNodes :: real
  h_tikvNodes :: real
  h_tidbInstanceType :: string
  h_monthlyCost :: real

record comparisonData_state =
  previousInstanceType :: string
  history :: "history_entry list"
  costBreakdown :: "(string \<times> real) list"

record state =
  postgres :: postgres_state
  workload :: workload_state
  tidbCluster :: tidbCluster_state
  instances :: instances_state
  storage :: storage_state
  operational :: operational_state
  comparisonData :: comparisonData_state

subsection \<open>The topology effect (calculator.js, lines 206-371)\<close>

text \<open>
  Each \<open>const\<close> of the effect body is a function of the state the effect closes over.
  These definitions compute with real numbers; they are the effect's arithmetic when no
  divisor is \<open>0\<close>. The divisors that can be \<open>0\<close> are \<open>instanceCount\<close> (line 215) and
  \<open>dataReplicationFactor\<close> (line 259), which the form bounds below by \<open>1\<close> and \<open>3\<close> but
  does not enforce. The division by \<open>instanceCount\<close> is modelled again, with JavaScript's
  numbers, in \<open>js_sqlTier\<close> below, which agrees with these definitions when
  \<open>instanceCount\<close> is not \<open>0\<close> and gives \<open>NaN\<close> when it is.
\<close>

definition postgresVcpu :: "state \<Rightarrow> real" where
  "postgresVcpu s = or_default (postgresInstanceTypes (instanceType (postgres s))) vCPU 8"

definition postgresMemory :: "state \<Rightarrow> real" where
  "postgresMemory s = or_default (postgresInstanceTypes (instanceType (postgres s))) memory 32"

definition totalPostgresVcpu :: "state \<Rightarrow> real" where
  "totalPostgresVcpu s = postgresVcpu s * instanceCount (postgres s)"

definition readReplicaVcpu :: "state \<Rightarrow> real" where
  "readReplicaVcpu s =
     totalPostgresVcpu s * (readReplicas (postgres s) / instanceCount (postgres s))"

definition effectivePostgresVcpu :: "state \<Rightarrow> real" where
  "effectivePostgresVcpu s = totalPostgresVcpu s + readReplicaVcpu s"

definition vcpuPerTidbNode :: "state \<Rightarrow> real" where
  "vcpuPerTidbNode s = or_default (ec2InstanceTypes (tidbInstanceType (instances s))) vCPU 16"

definition suggestedTidbNodesFromCpu :: "state \<Rightarrow> real" where
  "suggestedTidbNodesFromCpu s = max 3 (ceil (effectivePostgresVcpu s / vcpuPerTidbNode s))"

definition suggestedTidbNodesFromConn :: "state \<Rightarrow> real" where
  "suggestedTidbNodesFromConn s = max 3 (ceil (concurrentConnections (workload s) / 500))"

definition baseTidbNodes :: "state \<Rightarrow> real" where
  "baseTidbNodes s = max (suggestedTidbNodesFromCpu s) (suggestedTidbNodesFromConn s)"

definition compressionRatio :: real where
  "compressionRatio = 4 / 10"

definition storageUsageRatio :: real where
  "storageUsageRatio = 8 / 10"

definition defaultNodeCapacity :: real where
  "defaultNodeCapacity = 4000"

definition suggestedTikvNodesForStorage :: "state \<Rightarrow> real" where
  "suggestedTikvNodesForStorage s =
     ceil ((storageGB (postgres s) * compressionRatio * dataReplicationFactor (tidbCluster s)) /
           (storageUsageRatio * defaultNodeCapacity * 3)) * 3"

definition writesPerTikvNode :: real where
  "writesPerTikvNode = 5000"

definition suggestedTikvNodesFromWrites :: "state \<Rightarrow> real" where
  "suggestedTikvNodesFromWrites s =
     max 3 (ceil (writeOps (postgres s) / writesPerTikvNode / 3) * 3)"

definition suggestedTikvNodes :: "state \<Rightarrow> real" where
  "suggestedTikvNodes s =
     max 3 (max (suggestedTikvNodesForStorage s) (suggestedTikvNodesFromWrites s))"

definition writeHeavyFactor :: "string \<Rightarrow> real" where
  "writeHeavyFactor r =
     (if startsWith r ''50'' then 15 / 10 else if startsWith r ''30'' then 2 else 1)"

definition useTiflash_derived :: "state \<Rightarrow> bool" where
  "useTiflash_derived s = (type (workload s) = ''OLAP'' \<or> type (workload s) = ''Mixed'')"

definition tiflashReplicas :: "state \<Rightarrow> real" where
  "tiflashReplicas s = (if useTiflash_derived s then 2 else 0)"

definition suggestedTiflashNodes :: "state \<Rightarrow> real" where
  "suggestedTiflashNodes s =
     (if useTiflash_derived s
      then max 2 (ceil ((storageGB (postgres s) * compressionRatio * tiflashReplicas s) /
                        (dataReplicationFactor (tidbCluster s) * storageUsageRatio *
                         defaultNodeCapacity)))
      else 0)"

definition spikeFactor :: "state \<Rightarrow> real" where
  "spikeFactor s =
     (if trafficSpikes (workload s) then min 2 (peakRatio (workload s) / 2) else 1)"

definition componentsPerWorker :: real where
  "componentsPerWorker = 15 / 10"

definition totalComponents :: "state \<Rightarrow> real" where
  "totalComponents s =
     ceil (baseTidbNodes s * spikeFactor s) +
     ceil (suggestedTikvNodes s * writeHeavyFactor (readWriteRatio (workload s))) +
     pdNodes (tidbCluster s) +
     suggestedTiflashNodes s +
     1"

definition suggestedWorkerNodes :: "state \<Rightarrow> real" where
  "suggestedWorkerNodes s = max 6 (ceil (totalComponents s / componentsPerWorker))"

text \<open>The instance type the effect selects for the TiDB tier from the PostgreSQL memory.\<close>

definition selectedTidbInstanceType :: "state \<Rightarrow> string" where
  "selectedTidbInstanceType s =
     (if postgresMemory s \<ge> 128 then ''r5.4xlarge''
      else if postgresMemory s \<ge> 64 then ''r5.2xlarge''
      else ''c5.4xlarge'')"

text \<open>
  \<open>totalInstanceCost\<close> of the history updater (lines 314-326): the instance costs are read
  from the \<open>instances\<close> the effect closed over, the node counts are the derived ones.
\<close>

definition h_totalInstanceCost :: "state \<Rightarrow> real" where
  "h_totalInstanceCost s =
     or_default (ec2InstanceTypes (tidbInstanceType (instances s))) monthlyCost 493 *
       ceil (baseTidbNodes s * spikeFactor s) +
     or_default (ec2InstanceTypes (tikvInstanceType (instances s))) monthlyCost 998 *
       ceil (suggestedTikvNodes s * writeHeavyFactor (readWriteRatio (workload s))) +
     or_default (ec2InstanceTypes (pdInstanceType (instances s))) monthlyCost 278 *
       pdNodes (tidbCluster s) +
     or_default (ec2InstanceTypes (tiflashInstanceType (instances s))) monthlyCost 1995 *
       suggestedTiflashNodes s +
     or_default (ec2InstanceTypes (monitoringInstanceType (instances s))) monthlyCost 246"

text \<open>The entry pushed by the history updater, given the log \<open>prev.history\<close> it updates.\<close>

definition newEntry :: "state \<Rightarrow> history_entry list \<Rightarrow> nat \<Rightarrow> history_entry" where
  "newEntry s prev_history n =
     \<lparr>h_id = n,
      h_from = previousInstanceType (comparisonData s),
      h_to = instanceType (postgres s),
      vcpuChange =
        (or_default (postgresInstanceTypes (previousInstanceType (comparisonData s))) vCPU 0,
         or_default (postgresInstanceTypes (instanceType (postgres s))) vCPU 0),
      memoryChange =
        (or_default (postgresInstanceTypes (previousInstanceType (comparisonData s))) memory 0,
         or_default (postgresInstanceTypes (instanceType (postgres s))) memory 0),
      tidbNodesChange =
        (if length prev_history > 0 then h_tidbNodes (last prev_history) else 3,
         ceil (baseTidbNodes s * spikeFactor s)),
      tikvNodesChange =
        (if length prev_history > 0 then h_tikvNodes (last prev_history) else 3,
         ceil (suggestedTikvNodes s * writeHeavyFactor (readWriteRatio (workload s)))),
      instanceTypeChange =
        (if length prev_history > 0 then h_tidbInstanceType (last prev_history)
         else ''c5.4xlarge'',
         selectedTidbInstanceType s),
      h_tidbNodes = ceil (baseTidbNodes s * spikeFactor s),
      h_tikvNodes = ceil (suggestedTikvNodes s * writeHeavyFactor (readWriteRatio (workload s))),
      h_tidbInstanceType = selectedTidbInstanceType s,
      h_monthlyCost = h_totalInstanceCost s\<rparr>"

text \<open>
  \<open>newHistory\<close>: a copy of the log, shifted when it holds 10 entries or more, with the new
  entry pushed; the entry's \<open>id\<close> is the length of the copy at the time of the push.
\<close>

definition newHistory :: "state \<Rightarrow> history_entry list \<Rightarrow> history_entry list" where
  "newHistory s prev_history =
     (let h = (if length prev_history \<ge> 10 then tl prev_history else prev_history)
      in h @ [newEntry s prev_history (length h)])"

definition recordChange :: "state \<Rightarrow> comparisonData_state \<Rightarrow> comparisonData_state" where
  "recordChange s prev =
     prev\<lparr>previousInstanceType := instanceType (postgres s),
          history := newHistory s (history prev)\<rparr>"

text \<open>The state once the three updates queued by one run of the effect are applied.\<close>

definition autoCalculate :: "state \<Rightarrow> state" where
  "autoCalculate s =
     s\<lparr>tidbCluster := (tidbCluster s)
          \<lparr>tidbNodes := ceil (baseTidbNodes s * spikeFactor s),
           tikvNodes := ceil (suggestedTikvNodes s * writeHeavyFactor (readWriteRatio (workload s))),
           useTiflash := useTiflash_derived s,
           tiflashNodes := suggestedTiflashNodes s,
           k8sWorkerNodes := suggestedWorkerNodes s\<rparr>,
       instances := (instances s)\<lparr>tidbInstanceType := selectedTidbInstanceType s\<rparr>,
       comparisonData :=
         (if instanceType (postgres s) \<noteq> previousInstanceType (comparisonData s)
          then recordChange s (comparisonData s)
          else comparisonData s)\<rparr>"

subsection \<open>The SQL tier with JavaScript's reads and division\<close>

text \<open>
  Reading a property of \<open>undefined\<close> throws a \<open>TypeError\<close>; with the state typed as in
  the records above it is the one way the expressions of this program can throw. \<open>member\<close> is the read \<open>table[key].field\<close>,
  which throws when the key is missing; \<open>opt_member\<close> is \<open>table[key]?.field\<close>, which gives
  \<open>undefined\<close> (\<open>None\<close>) instead; \<open>or_else\<close> is \<open>v || d\<close> on a number or \<open>undefined\<close>.
\<close>

datatype js_error = TypeError

definition member :: "'a option \<Rightarrow> ('a \<Rightarrow> 'b) \<Rightarrow> js_error + 'b" where
  "member obj field = (case obj of None \<Rightarrow> Inl TypeError | Some r \<Rightarrow> Inr (field r))"



definition bind_js :: "js_error + 'a \<Rightarrow> ('a \<Rightarrow> js_error + 'b) \<Rightarrow> js_error + 'b" where
  "bind_js m f = (case m of Inl e \<Rightarrow> Inl e | Inr v \<Rightarrow> f v)"





text \<open>
  For contrast, \<open>getTidbEquivalentConfig\<close> of the comparison table (lines 549-555) reads
  the catalog with a plain \<open>.\<close>; it is called with the four fixed keys of \<open>pgConfigs\<close>.
  This is its \<open>estimatedTidbNodes\<close>, as a function of \<open>pgConfig.instanceType\<close>.
\<close>

definition estimatedTidbNodes :: "string \<Rightarrow> js_error + real" where
  "estimatedTidbNodes k =
     bind_js (member (postgresInstanceTypes k) vCPU) (\<lambda>pgVcpu.
     bind_js (member (postgresInstanceTypes k) memory) (\<lambda>pgMemory.
       Inr (max 3 (ceil ((pgVcpu * 2) / 16)))))"

subsection \<open>The cost model of the render body (lines 373-444)\<close>

text \<open>
  \<open>calculateEbsCost\<close>. The price fields read after \<open>type === "gp3"\<close>, \<open>"io1"\<close> or \<open>"io2"\<close>
  belong to an entry that defines them; \<open>price\<close> reads such a field.
\<close>

definition price :: "real option \<Rightarrow> real" where
  "price p = (case p of Some v \<Rightarrow> v | None \<Rightarrow> 0)"

definition calculateEbsCost :: "string \<Rightarrow> real \<Rightarrow> real \<Rightarrow> real \<Rightarrow> real" where
  "calculateEbsCost ty sizeGB iops_arg throughput =
     (if sizeGB = 0 then 0
      else
        let ebsType = (case ebsVolumeTypes ty of Some e \<Rightarrow> e | None \<Rightarrow> gp3);
            cost0 = sizeGB * basePrice ebsType;
            cost1 = (if ty = ''gp3'' \<and> iops_arg > 3000
                     then cost0 + (iops_arg - 3000) * price (iopsPrice ebsType) else cost0);
            cost2 = (if ty = ''gp3'' \<and> throughput > 125
                     then cost1 + (throughput - 125) * price (throughputPrice ebsType) else cost1);
            cost3 = (if (ty = ''io1'' \<or> ty = ''io2'') \<and> iops_arg \<noteq> 0
                     then cost2 + iops_arg * price (iopsPrice ebsType) else cost2)
        in cost3)"

text \<open>Every call of the source leaves \<open>iops\<close> and \<open>throughput\<close> at their defaults.\<close>

definition ebsCost :: "string \<Rightarrow> real \<Rightarrow> real" where
  "ebsCost ty sizeGB = calculateEbsCost ty sizeGB 3000 125"

definition tidbInstanceCost :: "state \<Rightarrow> real" where
  "tidbInstanceCost s =
     or_default (ec2InstanceTypes (tidbInstanceType (instances s))) monthlyCost 493"

definition tikvInstanceCost :: "state \<Rightarrow> real" where
  "tikvInstanceCost s =
     or_default (ec2InstanceTypes (tikvInstanceType (instances s))) monthlyCost 998"

definition pdInstanceCost :: "state \<Rightarrow> real" where
  "pdInstanceCost s =
     or_default (ec2InstanceTypes (pdInstanceType (instances s))) monthlyCost 278"

definition tiflashInstanceCost :: "state \<Rightarrow> real" where
  "tiflashInstanceCost s =
     or_default (ec2InstanceTypes (tiflashInstanceType (instances s))) monthlyCost 1995"

definition monitoringInstanceCost :: "state \<Rightarrow> real" where
  "monitoringInstanceCost s =
     or_default (ec2InstanceTypes (monitoringInstanceType (instances s))) monthlyCost 246"

definition totalInstanceCost :: "state \<Rightarrow> real" where
  "totalInstanceCost s =
     tidbInstanceCost s * tidbNodes (tidbCluster s) +
     tikvInstanceCost s * tikvNodes (tidbCluster s) +
     pdInstanceCost s * pdNodes (tidbCluster s) +
     tiflashInstanceCost s * tiflashNodes (tidbCluster s) +
     monitoringInstanceCost s"

definition tidbStorageCost :: "state \<Rightarrow> real" where
  "tidbStorageCost s =
     ebsCost (tidbEbsType (storage s)) (tidbEbsSize (storage s)) * tidbNodes (tidbCluster s)"

definition tikvAdditionalStorageCost :: "state \<Rightarrow> real" where
  "tikvAdditionalStorageCost s =
     ebsCost (tikvAdditionalEbsType (storage s)) (tikvAdditionalEbsSize (storage s)) *
     tikvNodes (tidbCluster s)"

definition pdStorageCost :: "state \<Rightarrow> real" where
  "pdStorageCost s =
     ebsCost (pdEbsType (storage s)) (pdEbsSize (storage s)) * pdNodes (tidbCluster s)"

definition tiflashStorageCost :: "state \<Rightarrow> real" where
  "tiflashStorageCost s =
     ebsCost (tiflashEbsType (storage s)) (tiflashEbsSize (storage s)) *
     tiflashNodes (tidbCluster s)"

definition totalStorageCost :: "state \<Rightarrow> real" where
  "totalStorageCost s =
     tidbStorageCost s + tikvAdditionalStorageCost s + pdStorageCost s + tiflashStorageCost s"

definition s3BackupCost :: "state \<Rightarrow> real" where
  "s3BackupCost s =
     (if backupToS3 (operational s) then backupSizeGB (operational s) * (23 / 1000) else 0)"

definition networkCost :: "state \<Rightarrow> real" where
  "networkCost s = networkTrafficGB (operational s) * (1 / 100)"

definition totalKubernetesCost :: "state \<Rightarrow> real" where
  "totalKubernetesCost s =
     eksClusterCount (tidbCluster s) * eksClusterCost (operational s) +
     eksMonitoringCost (operational s)"

definition totalMonthlyCost :: "state \<Rightarrow> real" where
  "totalMonthlyCost s =
     totalInstanceCost s + totalStorageCost s + s3BackupCost s + networkCost s +
     totalKubernetesCost s"

definition oneTimeCosts :: "state \<Rightarrow> real" where
  "oneTimeCosts s = migrationCost (operational s)"

definition postgresMonthlyCost :: "state \<Rightarrow> real" where
  "postgresMonthlyCost s = pg_monthlyCost (postgres s)"

definition monthlySavings :: "state \<Rightarrow> real" where
  "monthlySavings s = postgresMonthlyCost s - totalMonthlyCost s"

definition savingsPercentage :: "state \<Rightarrow> real" where
  "savingsPercentage s =
     (if postgresMonthlyCost s > 0 then (monthlySavings s / postgresMonthlyCost s) * 100 else 0)"

text \<open>
  \<open>paybackPeriodMonths\<close> (line 444) is a JavaScript number: the quotient when the
  savings are positive, the number \<open>Infinity\<close> otherwise.
\<close>

definition paybackPeriodMonths :: "state \<Rightarrow> jsnum" where
  "paybackPeriodMonths s =
     (if monthlySavings s > 0 then jdiv (Finite (oneTimeCosts s)) (Finite (monthlySavings s))
      else PosInf)"

text \<open>
  The payback card of the summary (lines 1034-1041):
  \<open>{monthlySavings > 0 && (... isFinite(paybackPeriodMonths) ? `${...toFixed(1)} months` : 'N/A' ...)}\<close>.
  No card is rendered unless the savings are positive; a rendered card shows the months
  (kept here as the number that \<open>toFixed\<close> formats) or the text \<open>N/A\<close>.
\<close>

datatype payback_text = MonthsText real | NA

definition paybackCard :: "state \<Rightarrow> payback_text option" where
  "paybackCard s =
     (if monthlySavings s > 0
      then Some (case paybackPeriodMonths s of Finite m \<Rightarrow> MonthsText m | _ \<Rightarrow> NA)
      else None)"

subsection \<open>The cost breakdown effect (lines 446-478)\<close>

definition costBreakdownData :: "state \<Rightarrow> (string \<times> real) list" where
  "costBreakdownData s =
     [(''TiDB Nodes'', tidbInstanceCost s * tidbNodes (tidbCluster s)),
      (''TiKV Nodes'', tikvInstanceCost s * tikvNodes (tidbCluster s)),
      (''PD Nodes'', pdInstanceCost s * pdNodes (tidbCluster s)),
      (''TiFlash Nodes'', tiflashInstanceCost s * tiflashNodes (tidbCluster s)),
      (''Monitoring'', monitoringInstanceCost s),
      (''Storage'', totalStorageCost s),
      (''S3 Backup'', s3BackupCost s),
      (''Network'', networkCost s),
      (''Kubernetes'', totalKubernetesCost s)]"

definition updateCostBreakdown :: "state \<Rightarrow> state" where
  "updateCostBreakdown s =
     s\<lparr>comparisonData := (comparisonData s)\<lparr>costBreakdown := costBreakdownData s\<rparr>\<rparr>"

text \<open>
  One recomputation: the topology effect runs on the state of the render, its updates are
  applied, and the breakdown effect stores the breakdown of the re-rendered state.
\<close>

definition recompute :: "state \<Rightarrow> state" where
  "recompute s = updateCostBreakdown (autoCalculate s)"

subsection \<open>Initial state and the instance type handler\<close>

definition initialState :: state where
  "initialState =
     \<lparr>postgres = \<lparr>instanceType = ''db.r5.2xlarge'', instanceCount = 2, storageGB = 1000,
                  iops = 3000, readOps = 5000, writeOps = 1000, pg_monthlyCost = 2208 * 2,
                  multiAZ = True, readReplicas = 1\<rparr>,
      workload = \<lparr>readWriteRatio = ''80/20'', type = ''OLTP'', dataGrowthRate = 10,
                  concurrentConnections = 200, trafficSpikes = True, peakRatio = 3\<rparr>,
      tidbCluster = \<lparr>tidbNodes = 3, tikvNodes = 3, pdNodes = 3, tiflashNodes = 0,
                     useTiflash = False, eksClusterCount = 1, k8sWorkerNodes = 6,
                     availabilityZones = 3, dataReplicationFactor = 3\<rparr>,
      instances = \<lparr>tidbInstanceType = ''c5.4xlarge'', tikvInstanceType = ''i3.4xlarge'',
                   pdInstanceType = ''m5.4xlarge'', tiflashInstanceType = ''i3.8xlarge'',
                   monitoringInstanceType = ''c5.2xlarge''\<rparr>,
      storage = \<lparr>tidbEbsType = ''gp3'', tidbEbsSize = 100, tikvUseInstanceStore = True,
                 tikvAdditionalEbsType = ''gp3'', tikvAdditionalEbsSize = 0,
                 pdEbsType = ''gp3'', pdEbsSize = 100,
                 tiflashEbsType = ''gp3'', tiflashEbsSize = 1000\<rparr>,
      operational = \<lparr>backupToS3 = True, backupSizeGB = 1000, networkTrafficGB = 5000,
                     eksClusterCost = 73, eksMonitoringCost = 200, migrationCost = 5000,
                     operationalFTE = 5 / 10\<rparr>,
      comparisonData = \<lparr>previousInstanceType = ''db.r5.2xlarge'', history = [],
                        costBreakdown = []\<rparr>\<rparr>"

text \<open>\<open>handlePostgresChange\<close> for the field \<open>instanceType\<close> (lines 132-139).\<close>

definition handleInstanceTypeChange :: "string \<Rightarrow> state \<Rightarrow> state" where
  "handleInstanceTypeChange v s =
     (let instanceCost = or_default (postgresInstanceTypes v) monthlyCost 0;
          prev = postgres s
      in s\<lparr>postgres := prev
            \<lparr>instanceType := v,
             pg_monthlyCost :=
               instanceCost * instanceCount prev * (if multiAZ prev then 2 else 1) +
               instanceCost * readReplicas prev\<rparr>\<rparr>)"

text \<open>
  \<open>handlePostgresChange\<close> for the numeric field \<open>instanceCount\<close> (lines 140-152) and for
  \<open>monthlyCost\<close> (lines 153-158), \<open>handleWorkloadChange\<close> for the numeric field \<open>peakRatio\<close>,
  and \<open>handleInstanceChange\<close> for \<open>tidbInstanceType\<close>.
\<close>

definition handleInstanceCountChange :: "real \<Rightarrow> state \<Rightarrow> state" where
  "handleInstanceCountChange v s =
     (let instanceCost =
            or_default (postgresInstanceTypes (instanceType (postgres s))) monthlyCost 0
      in s\<lparr>postgres := (postgres s)
            \<lparr>instanceCount := v,
             pg_monthlyCost :=
               instanceCost * v * (if multiAZ (postgres s) then 2 else 1) +
               instanceCost * readReplicas (postgres s)\<rparr>\<rparr>)"

definition handleMonthlyCostChange :: "real \<Rightarrow> state \<Rightarrow> state" where
  "handleMonthlyCostChange v s = s\<lparr>postgres := (postgres s)\<lparr>pg_monthlyCost := v\<rparr>\<rparr>"

definition handlePeakRatioChange :: "real \<Rightarrow> state \<Rightarrow> state" where
  "handlePeakRatioChange v s = s\<lparr>workload := (workload s)\<lparr>peakRatio := v\<rparr>\<rparr>"

definition handleTidbInstanceTypeChange :: "string \<Rightarrow> state \<Rightarrow> state" where
  "handleTidbInstanceTypeChange v s = s\<lparr>instances := (instances s)\<lparr>tidbInstanceType := v\<rparr>\<rparr>"

subsection \<open>Sequences of recomputations\<close>

text \<open>
  The history log lives in \<open>comparisonData\<close>, which only the two effects write. A sequence
  of recomputations is given by the states of the other cells at each recomputation (the
  user may have edited any of them in between); the \<open>comparisonData\<close> cell is threaded
  through.
\<close>

fun recomputeSeq :: "comparisonData_state \<Rightarrow> state list \<Rightarrow> comparisonData_state" where
  "recomputeSeq cd [] = cd"
| "recomputeSeq cd (s # ss) =
     recomputeSeq (comparisonData (recompute (s\<lparr>comparisonData := cd\<rparr>))) ss"

text \<open>The instance type transitions of such a sequence, starting from the type \<open>p\<close>.\<close>

fun transitions :: "string \<Rightarrow> string list \<Rightarrow> (string \<times> string) list" where
  "transitions p [] = []"
| "transitions p (t # ts) = (p, t) # transitions t ts"

definition fromTo :: "history_entry list \<Rightarrow> (string \<times> string) list" where
  "fromTo h = map (\<lambda>e. (h_from e, h_to e)) h"

text \<open>Eleven consecutive changes of the PostgreSQL instance type, from the initial state.\<close>

definition elevenTypes :: "string list" where
  "elevenTypes =
     [''db.m5.large'', ''db.m5.xlarge'', ''db.m5.2xlarge'', ''db.r5.large'', ''db.r5.xlarge'',
      ''db.r5.2xlarge'', ''db.r5.4xlarge'', ''db.m5.large'', ''db.m5.xlarge'', ''db.m5.2xlarge'',
      ''db.r5.large'']"

definition elevenChanges :: "state list" where
  "elevenChanges = map (\<lambda>v. handleInstanceTypeChange v initialState) elevenTypes"

text \<open>
  The ids of \<open>newHistory\<close>: what one recorded change does to the list of ids in the log.
\<close>

definition nextIds :: "nat list \<Rightarrow> nat list" where
  "nextIds i = (if length i \<ge> 10 then tl i @ [length i - 1] else i @ [length i])"

text \<open>Concrete states used below, each reached from the initial state by form edits.\<close>

definition zeroSourceCost :: state where
  "zeroSourceCost = handleMonthlyCostChange 0 initialState"

definition scenarioState :: state where
  "scenarioState = handleInstanceTypeChange ''db.m5.2xlarge'' initialState"


definition highSourceCost :: state where
  "highSourceCost = handleMonthlyCostChange 11781 initialState"


definition eightInstances :: state where
  "eightInstances = handleInstanceCountChange 8 initialState"

definition stableSelection :: state where
  "stableSelection = handleTidbInstanceTypeChange ''r5.2xlarge'' initialState"

section \<open>Properties\<close>

lemmas derive_defs = postgresVcpu_def postgresMemory_def totalPostgresVcpu_def
  readReplicaVcpu_def effectivePostgresVcpu_def vcpuPerTidbNode_def
  suggestedTidbNodesFromCpu_def suggestedTidbNodesFromConn_def baseTidbNodes_def
  compressionRatio_def storageUsageRatio_def defaultNodeCapacity_def
  suggestedTikvNodesForStorage_def writesPerTikvNode_def suggestedTikvNodesFromWrites_def
  suggestedTikvNodes_def writeHeavyFactor_def useTiflash_derived_def tiflashReplicas_def
  suggestedTiflashNodes_def spikeFactor_def componentsPerWorker_def totalComponents_def
  suggestedWorkerNodes_def selectedTidbInstanceType_def

lemmas catalog_defs = or_default_def ceil_def startsWith_def ec2InstanceTypes_def
  postgresInstanceTypes_def mk_def mkn_def

lemmas cost_defs = tidbInstanceCost_def tikvInstanceCost_def pdInstanceCost_def
  tiflashInstanceCost_def monitoringInstanceCost_def totalInstanceCost_def tidbStorageCost_def
  tikvAdditionalStorageCost_def pdStorageCost_def tiflashStorageCost_def totalStorageCost_def
  s3BackupCost_def networkCost_def totalKubernetesCost_def totalMonthlyCost_def
  oneTimeCosts_def postgresMonthlyCost_def monthlySavings_def

lemmas effect_defs = recompute_def updateCostBreakdown_def autoCalculate_def recordChange_def

subsection \<open>The history log under one recomputation\<close>

lemma history_recompute:
  "history (comparisonData (recompute s)) =
     (if instanceType (postgres s) \<noteq> previousInstanceType (comparisonData s)
      then newHistory s (history (comparisonData s))
      else history (comparisonData s))"
  by (simp add: effect_defs)

lemma previous_recompute:
  "previousInstanceType (comparisonData (recompute s)) = instanceType (postgres s)"
  by (simp add: effect_defs)

lemma length_fromTo: "length (fromTo h) = length h"
  by (simp add: fromTo_def)

lemma fromTo_newHistory:
  "fromTo (newHistory s h) =
     (if length h \<ge> 10 then tl (fromTo h) else fromTo h) @
     [(previousInstanceType (comparisonData s), instanceType (postgres s))]"
  by (simp add: newHistory_def fromTo_def newEntry_def Let_def map_tl)

lemma ids_newHistory:
  "map h_id (newHistory s h) =
     (if length h \<ge> 10 then tl (map h_id h) @ [length h - 1] else map h_id h @ [length h])"
  by (simp add: newHistory_def newEntry_def Let_def map_tl)

lemma length_newHistory:
  "length (newHistory s h) = (if length h \<ge> 10 then length h else Suc (length h))"
  by (auto simp add: newHistory_def Let_def)

lemma length_transitions: "length (transitions p ts) = length ts"
  by (induction ts arbitrary: p) auto

subsection \<open>The last ten of a growing list\<close>

lemma drop_last10_append:
  "drop (length (drop (length xs - n) xs @ ys) - n) (drop (length xs - n) xs @ ys) =
   drop (length (xs @ ys) - n) (xs @ ys)"
  by (cases "length xs \<le> n") (auto simp: add.commute)

lemma step_last10:
  assumes "length xs \<le> 10"
  shows "(if length xs \<ge> 10 then tl xs else xs) @ [x] =
         drop (length (xs @ [x]) - 10) (xs @ [x])"
  using assms by (cases xs) (auto simp: drop_Cons')

lemma drop_last10_suffix:
  assumes "length ys \<ge> n"
  shows "drop (length (xs @ ys) - n) (xs @ ys) = drop (length ys - n) ys"
proof -
  have "length (xs @ ys) - n = length xs + (length ys - n)"
    using assms by simp
  then show ?thesis by simp
qed

lemma fromTo_recomputeSeq:
  "length (history cd) \<le> 10 \<Longrightarrow>
   \<forall>(a, b) \<in> set (transitions (previousInstanceType cd)
                      (map (\<lambda>s. instanceType (postgres s)) ss)). a \<noteq> b \<Longrightarrow>
   fromTo (history (recomputeSeq cd ss)) =
     (let all = fromTo (history cd) @
                transitions (previousInstanceType cd) (map (\<lambda>s. instanceType (postgres s)) ss)
      in drop (length all - 10) all)
   \<and> length (history (recomputeSeq cd ss)) \<le> 10"
proof (induction ss arbitrary: cd)
  case Nil
  then show ?case by (simp add: fromTo_def)
next
  case (Cons s ss)
  let ?s = "s\<lparr>comparisonData := cd\<rparr>"
  let ?cd = "comparisonData (recompute ?s)"
  let ?x = "(previousInstanceType cd, instanceType (postgres s))"
  let ?T = "transitions (instanceType (postgres s)) (map (\<lambda>s. instanceType (postgres s)) ss)"
  from Cons.prems(2) have ch: "instanceType (postgres s) \<noteq> previousInstanceType cd"
    and rest: "\<forall>(a, b) \<in> set ?T. a \<noteq> b"
    by auto
  have h: "history ?cd = newHistory ?s (history cd)"
    using ch by (simp add: history_recompute)
  have p: "previousInstanceType ?cd = instanceType (postgres s)"
    by (simp add: previous_recompute)
  have len: "length (history ?cd) \<le> 10"
    using Cons.prems(1) by (simp add: h length_newHistory)
  have ft: "fromTo (history ?cd) =
      drop (length (fromTo (history cd) @ [?x]) - 10) (fromTo (history cd) @ [?x])"
  proof -
    have "length (fromTo (history cd)) \<le> 10"
      using Cons.prems(1) by (simp add: length_fromTo)
    from step_last10[OF this, of ?x]
    have "(if 10 \<le> length (history cd) then tl (fromTo (history cd))
           else fromTo (history cd)) @ [?x]
          = drop (length (fromTo (history cd) @ [?x]) - 10) (fromTo (history cd) @ [?x])"
      by (simp only: length_fromTo)
    moreover have "fromTo (history ?cd) =
        (if 10 \<le> length (history cd) then tl (fromTo (history cd))
         else fromTo (history cd)) @ [?x]"
      unfolding h fromTo_newHistory by simp
    ultimately show ?thesis by (rule trans[rotated])
  qed
  have IH: "fromTo (history (recomputeSeq ?cd ss)) =
     (let all = fromTo (history ?cd) @ ?T in drop (length all - 10) all)
     \<and> length (history (recomputeSeq ?cd ss)) \<le> 10"
    using Cons.IH[of ?cd] len rest p by simp
  have "drop (length (fromTo (history ?cd) @ ?T) - 10) (fromTo (history ?cd) @ ?T) =
        drop (length ((fromTo (history cd) @ [?x]) @ ?T) - 10) ((fromTo (history cd) @ [?x]) @ ?T)"
    unfolding ft by (rule drop_last10_append)
  with IH show ?case by (simp add: Let_def)
qed

lemma elevenChanges_types:
  "map (\<lambda>s. instanceType (postgres s)) elevenChanges = elevenTypes"
  by (simp add: elevenChanges_def handleInstanceTypeChange_def Let_def o_def)

text \<open>
  Claim C4. After more than 10 recomputations that each change the PostgreSQL instance
  type, the log holds exactly 10 entries, and their from/to pairs are the last 10
  transitions of the sequence in the order they occurred; a recomputation whose instance
  type equals the recorded previous one leaves the log as it was.
\<close>

theorem history_bound_fifo:
  "(length (history cd) \<le> 10 \<and> length ss > 10 \<and>
    (\<forall>(a, b) \<in> set (transitions (previousInstanceType cd)
                       (map (\<lambda>s. instanceType (postgres s)) ss)). a \<noteq> b)
    \<longrightarrow> length (history (recomputeSeq cd ss)) = 10 \<and>
        fromTo (history (recomputeSeq cd ss)) =
          drop (length ss - 10)
            (transitions (previousInstanceType cd) (map (\<lambda>s. instanceType (postgres s)) ss)))
   \<and> (instanceType (postgres s) = previousInstanceType (comparisonData s)
      \<longrightarrow> history (comparisonData (recompute s)) = history (comparisonData s))"
proof (intro conjI impI)
  assume a: "length (history cd) \<le> 10 \<and> length ss > 10 \<and>
    (\<forall>(a, b) \<in> set (transitions (previousInstanceType cd)
                       (map (\<lambda>s. instanceType (postgres s)) ss)). a \<noteq> b)"
  let ?T = "transitions (previousInstanceType cd) (map (\<lambda>s. instanceType (postgres s)) ss)"
  have lenT: "length ?T = length ss" by (simp add: length_transitions)
  from a fromTo_recomputeSeq[of cd ss]
  have "fromTo (history (recomputeSeq cd ss)) =
          drop (length (fromTo (history cd) @ ?T) - 10) (fromTo (history cd) @ ?T)"
    by (simp add: Let_def)
  also have "\<dots> = drop (length ss - 10) ?T"
  proof -
    from a have "10 \<le> length ?T" by (simp add: lenT)
    from drop_last10_suffix[OF this, of "fromTo (history cd)"] show ?thesis
      by (simp only: lenT)
  qed
  finally show ft: "fromTo (history (recomputeSeq cd ss)) = drop (length ss - 10) ?T" .
  have "length (fromTo (history (recomputeSeq cd ss))) = 10"
    unfolding ft using a lenT by simp
  then show "length (history (recomputeSeq cd ss)) = 10" by (simp add: length_fromTo)
next
  assume "instanceType (postgres s) = previousInstanceType (comparisonData s)"
  then show "history (comparisonData (recompute s)) = history (comparisonData s)"
    by (simp add: history_recompute)
qed

theorem history_bound_fifo_witness:
  "length (history (comparisonData initialState)) \<le> 10 \<and> length elevenChanges > 10 \<and>
   length (history (recomputeSeq (comparisonData initialState) elevenChanges)) = 10 \<and>
   fromTo (history (recomputeSeq (comparisonData initialState) elevenChanges)) =
     [(''db.m5.large'', ''db.m5.xlarge''), (''db.m5.xlarge'', ''db.m5.2xlarge''),
      (''db.m5.2xlarge'', ''db.r5.large''), (''db.r5.large'', ''db.r5.xlarge''),
      (''db.r5.xlarge'', ''db.r5.2xlarge''), (''db.r5.2xlarge'', ''db.r5.4xlarge''),
      (''db.r5.4xlarge'', ''db.m5.large''), (''db.m5.large'', ''db.m5.xlarge''),
      (''db.m5.xlarge'', ''db.m5.2xlarge''), (''db.m5.2xlarge'', ''db.r5.large'')] \<and>
   instanceType (postgres initialState) = previousInstanceType (comparisonData initialState) \<and>
   history (comparisonData (recompute initialState)) = []"
proof -
  have h1: "length (history (comparisonData initialState)) \<le> 10"
    by (simp add: initialState_def)
  have h2: "length elevenChanges > 10"
    by (simp add: elevenChanges_def elevenTypes_def)
  have h3: "\<forall>(a, b) \<in> set (transitions (previousInstanceType (comparisonData initialState))
                      elevenTypes). a \<noteq> b"
    by (simp add: initialState_def elevenTypes_def)
  have h4: "instanceType (postgres initialState) =
            previousInstanceType (comparisonData initialState)"
    by (simp add: initialState_def)
  have h5: "history (comparisonData initialState) = []"
    by (simp add: initialState_def)
  have t: "drop (length elevenChanges - 10)
             (transitions (previousInstanceType (comparisonData initialState)) elevenTypes) =
     [(''db.m5.large'', ''db.m5.xlarge''), (''db.m5.xlarge'', ''db.m5.2xlarge''),
      (''db.m5.2xlarge'', ''db.r5.large''), (''db.r5.large'', ''db.r5.xlarge''),
      (''db.r5.xlarge'', ''db.r5.2xlarge''), (''db.r5.2xlarge'', ''db.r5.4xlarge''),
      (''db.r5.4xlarge'', ''db.m5.large''), (''db.m5.large'', ''db.m5.xlarge''),
      (''db.m5.xlarge'', ''db.m5.2xlarge''), (''db.m5.2xlarge'', ''db.r5.large'')]"
    by (simp add: elevenChanges_def elevenTypes_def)
  from history_bound_fifo[of "comparisonData initialState" elevenChanges initialState]
  show ?thesis
    unfolding elevenChanges_types t using h1 h2 h3 h4 h5 by simp
qed

subsection \<open>Sequence ids\<close>

lemma ids_recomputeSeq:
  "\<forall>(a, b) \<in> set (transitions (previousInstanceType cd)
                      (map (\<lambda>s. instanceType (postgres s)) ss)). a \<noteq> b \<Longrightarrow>
   map h_id (history (recomputeSeq cd ss)) = (nextIds ^^ length ss) (map h_id (history cd))"
proof (induction ss arbitrary: cd)
  case Nil
  then show ?case by simp
next
  case (Cons s ss)
  let ?cd = "comparisonData (recompute (s\<lparr>comparisonData := cd\<rparr>))"
  from Cons.prems have ch: "instanceType (postgres s) \<noteq> previousInstanceType cd"
    and rest: "\<forall>(a, b) \<in> set (transitions (instanceType (postgres s))
                 (map (\<lambda>s. instanceType (postgres s)) ss)). a \<noteq> b"
    by auto
  have "map h_id (history ?cd) = nextIds (map h_id (history cd))"
    using ch by (simp add: history_recompute ids_newHistory nextIds_def)
  moreover have "previousInstanceType ?cd = instanceType (postgres s)"
    by (simp add: previous_recompute)
  ultimately have "map h_id (history (recomputeSeq ?cd ss)) =
      (nextIds ^^ length ss) (nextIds (map h_id (history cd)))"
    using Cons.IH[of ?cd] rest by simp
  then show ?case by (simp add: funpow_swap1)
qed

text \<open>
  Claim C3. Once the log holds 10 entries the updater shifts it to 9 entries and numbers the
  new entry with that length: after eleven changes from the initial state the ids are
  1 to 9 followed by 9 again, so the newest id is not greater than the one before it.
\<close>

theorem sequence_id_repeats_when_full:
  "map h_id (history (recomputeSeq (comparisonData initialState) elevenChanges)) =
     [1, 2, 3, 4, 5, 6, 7, 8, 9, 9]"
proof -
  have ch: "\<forall>(a, b) \<in> set (transitions (previousInstanceType (comparisonData initialState))
                      (map (\<lambda>s. instanceType (postgres s)) elevenChanges)). a \<noteq> b"
    unfolding elevenChanges_types by (simp add: initialState_def elevenTypes_def)
  have len: "length elevenChanges = 11"
    by (simp add: elevenChanges_def elevenTypes_def)
  have "(nextIds ^^ 11) [] = [1, 2, 3, 4, 5, 6, 7, 8, 9, 9]"
    by (simp add: eval_nat_numeral nextIds_def)
  moreover have "map h_id (history (comparisonData initialState)) = []"
    by (simp add: initialState_def)
  ultimately show ?thesis
    using ids_recomputeSeq[OF ch] by (simp only: len)
qed

subsection \<open>Node counts\<close>

lemma ceil_ge: "x \<le> ceil x"
  by (simp add: ceil_def)

lemma writeHeavyFactor_ge_1: "1 \<le> writeHeavyFactor r"
  by (simp add: writeHeavyFactor_def)

lemma suggestedTikvNodes_ge_3: "3 \<le> suggestedTikvNodes s"
  by (simp add: suggestedTikvNodes_def)

lemma baseTidbNodes_ge_3: "3 \<le> baseTidbNodes s"
  by (simp add: baseTidbNodes_def suggestedTidbNodesFromCpu_def le_max_iff_disj)

text \<open>
  What one recomputation guarantees: at least 3 TiKV nodes, no TiFlash node or at least 2,
  the PD node count as it was, and at least 3 TiDB nodes when the spike factor is at
  least 1 (no traffic spikes, or a peak ratio of 2 or more).
\<close>

lemma derived_node_bounds:
  "3 \<le> tikvNodes (tidbCluster (recompute s))"
  "tiflashNodes (tidbCluster (recompute s)) = 0 \<or> 2 \<le> tiflashNodes (tidbCluster (recompute s))"
  "pdNodes (tidbCluster (recompute s)) = pdNodes (tidbCluster s)"
  "1 \<le> spikeFactor s \<Longrightarrow> 3 \<le> tidbNodes (tidbCluster (recompute s))"
proof -
  have "3 * 1 \<le> suggestedTikvNodes s * writeHeavyFactor (readWriteRatio (workload s))"
    using suggestedTikvNodes_ge_3[of s] writeHeavyFactor_ge_1[of "readWriteRatio (workload s)"]
    by (intro mult_mono) simp_all
  also have "\<dots> \<le> ceil (suggestedTikvNodes s * writeHeavyFactor (readWriteRatio (workload s)))"
    by (rule ceil_ge)
  finally show "3 \<le> tikvNodes (tidbCluster (recompute s))"
    by (simp add: effect_defs)
  show "tiflashNodes (tidbCluster (recompute s)) = 0 \<or>
        2 \<le> tiflashNodes (tidbCluster (recompute s))"
    by (simp add: effect_defs suggestedTiflashNodes_def)
  show "pdNodes (tidbCluster (recompute s)) = pdNodes (tidbCluster s)"
    by (simp add: effect_defs)
  assume sp: "1 \<le> spikeFactor s"
  have "3 * 1 \<le> baseTidbNodes s * spikeFactor s"
    using baseTidbNodes_ge_3[of s] sp by (intro mult_mono) simp_all
  also have "\<dots> \<le> ceil (baseTidbNodes s * spikeFactor s)"
    by (rule ceil_ge)
  finally show "3 \<le> tidbNodes (tidbCluster (recompute s))"
    by (simp add: effect_defs)
qed

text \<open>
  Claim C1. With traffic spikes on and a peak ratio of 1 (the form's minimum) the spike
  factor is 1/2, applied after the floor of 3: the initial configuration derives 2 TiDB
  nodes.
\<close>

theorem spike_factor_breaks_minimum:
  "instanceCount (postgres (handlePeakRatioChange 1 initialState)) \<ge> 1 \<and>
   peakRatio (workload (handlePeakRatioChange 1 initialState)) \<ge> 1 \<and>
   trafficSpikes (workload (handlePeakRatioChange 1 initialState)) \<and>
   baseTidbNodes (handlePeakRatioChange 1 initialState) = 3 \<and>
   spikeFactor (handlePeakRatioChange 1 initialState) = 1 / 2 \<and>
   tidbNodes (tidbCluster (recompute (handlePeakRatioChange 1 initialState))) = 2"
  by (simp add: handlePeakRatioChange_def initialState_def effect_defs derive_defs catalog_defs)

subsection \<open>Cost additivity\<close>

text \<open>
  Claim C5. The monthly values of the nine breakdown entries add up to
  \<open>totalMonthlyCost\<close>, for the breakdown computed from any state and for the breakdown a
  recomputation stores.
\<close>

theorem total_is_sum_of_breakdown:
  "sum_list (map snd (costBreakdownData s)) = totalMonthlyCost s \<and>
   sum_list (map snd (costBreakdown (comparisonData (recompute s)))) =
     totalMonthlyCost (recompute s)"
proof
  show a: "sum_list (map snd (costBreakdownData s)) = totalMonthlyCost s" for s
    by (simp add: costBreakdownData_def totalMonthlyCost_def totalInstanceCost_def)
  have "costBreakdown (comparisonData (recompute s)) = costBreakdownData (autoCalculate s)"
    by (simp add: recompute_def updateCostBreakdown_def)
  moreover have "totalMonthlyCost (recompute s) = totalMonthlyCost (autoCalculate s)"
    by (simp add: recompute_def updateCostBreakdown_def cost_defs)
  ultimately show "sum_list (map snd (costBreakdown (comparisonData (recompute s)))) =
     totalMonthlyCost (recompute s)"
    using a[of "autoCalculate s"] by simp
qed

subsection \<open>The write-heavy factor\<close>

text \<open>
  Claim C6, as stated, fails: the ratio \<open>50/40\<close> is outside the enumerated set and is not
  \<open>50/50\<close>, yet its multiplier is 1.5.
\<close>

theorem writeHeavyFactor_prefix_counterexample:
  "''50/40'' \<notin> {''90/10'', ''80/20'', ''50/50'', ''30/70''} \<and>
   writeHeavyFactor ''50/40'' = 15 / 10 \<and> writeHeavyFactor ''50/40'' \<noteq> 1"
  by (simp add: writeHeavyFactor_def startsWith_def)

lemma startsWith_prefix: "startsWith s p = prefix p s"
proof
  assume "startsWith s p"
  then have "s = p @ drop (length p) s"
    unfolding startsWith_def by (metis append_take_drop_id)
  then show "prefix p s" by (rule prefixI)
next
  assume "prefix p s"
  then show "startsWith s p" by (auto simp: startsWith_def prefix_def)
qed

text \<open>
  Claim C6, amended. The multiplier is 1.5 exactly when the ratio begins with \<open>50\<close>, 2
  exactly when it begins with \<open>30\<close>, and 1 exactly when it begins with neither; on the four
  enumerated ratios this gives 1.5 for \<open>50/50\<close>, 2 for \<open>30/70\<close> and 1 for \<open>90/10\<close> and
  \<open>80/20\<close>.
\<close>

theorem writeHeavyFactor_prefix_match:
  "(writeHeavyFactor r = 15 / 10 \<longleftrightarrow> prefix ''50'' r) \<and>
   (writeHeavyFactor r = 2 \<longleftrightarrow> prefix ''30'' r) \<and>
   (writeHeavyFactor r = 1 \<longleftrightarrow> \<not> prefix ''50'' r \<and> \<not> prefix ''30'' r) \<and>
   writeHeavyFactor ''50/50'' = 15 / 10 \<and> writeHeavyFactor ''30/70'' = 2 \<and>
   writeHeavyFactor ''90/10'' = 1 \<and> writeHeavyFactor ''80/20'' = 1"
proof -
  have excl: "\<not> (prefix ''50'' r \<and> prefix ''30'' r)"
    by (auto simp: prefix_def)
  have enum: "writeHeavyFactor ''50/50'' = 15 / 10 \<and> writeHeavyFactor ''30/70'' = 2 \<and>
      writeHeavyFactor ''90/10'' = 1 \<and> writeHeavyFactor ''80/20'' = 1"
    by (simp add: writeHeavyFactor_def startsWith_def)
  have "writeHeavyFactor r =
      (if prefix ''50'' r then 15 / 10 else if prefix ''30'' r then 2 else 1)"
    by (simp add: writeHeavyFactor_def startsWith_prefix)
  with excl enum show ?thesis by auto
qed

subsection \<open>Savings and payback\<close>

lemma totalMonthlyCost_initial_tidb:
  "tidbCluster s = tidbCluster initialState \<Longrightarrow> instances s = instances initialState \<Longrightarrow>
   storage s = storage initialState \<Longrightarrow> operational s = operational initialState \<Longrightarrow>
   totalMonthlyCost s = 6781"
  by (simp add: initialState_def cost_defs catalog_defs ebsCost_def calculateEbsCost_def
      ebsVolumeTypes_def gp3_def price_def)

text \<open>
  Claim C7, as stated, fails. With a PostgreSQL monthly cost of 0 typed into the initial
  form the savings are negative: the payback period is the JavaScript number \<open>Infinity\<close>,
  and the summary renders no payback card at all, so no \<open>N/A\<close> text is reported.
\<close>

theorem payback_not_reported_counterexample:
  "monthlySavings zeroSourceCost = - 6781 \<and>
   paybackPeriodMonths zeroSourceCost = PosInf \<and>
   paybackCard zeroSourceCost = None \<and>
   paybackCard zeroSourceCost \<noteq> Some NA"
proof -
  have t: "totalMonthlyCost zeroSourceCost = 6781"
    by (rule totalMonthlyCost_initial_tidb)
       (simp_all add: zeroSourceCost_def handleMonthlyCostChange_def)
  have c: "pg_monthlyCost (postgres zeroSourceCost) = 0"
    by (simp add: zeroSourceCost_def handleMonthlyCostChange_def)
  have m: "monthlySavings zeroSourceCost = - 6781"
    by (simp add: monthlySavings_def postgresMonthlyCost_def t c)
  show ?thesis
    by (simp add: m paybackPeriodMonths_def paybackCard_def)
qed

text \<open>
  Claim C7, amended. When the PostgreSQL monthly cost is 0 the savings percentage is 0.
  When the monthly savings are not positive the payback period is the number \<open>Infinity\<close>,
  which is not \<open>NaN\<close> and which \<open>isFinite\<close> rejects, and no payback card is rendered. When
  the savings are positive the payback period is the quotient of the migration cost by
  the savings, and the card shows it.
\<close>

theorem savings_zero_and_payback_infinity:
  "(pg_monthlyCost (postgres s) = 0 \<longrightarrow> savingsPercentage s = 0) \<and>
   (monthlySavings s \<le> 0 \<longrightarrow>
      paybackPeriodMonths s = PosInf \<and> paybackPeriodMonths s \<noteq> NaN \<and>
      \<not> isFinite (paybackPeriodMonths s) \<and> paybackCard s = None) \<and>
   (monthlySavings s > 0 \<longrightarrow>
      paybackPeriodMonths s = Finite (oneTimeCosts s / monthlySavings s) \<and>
      paybackCard s = Some (MonthsText (oneTimeCosts s / monthlySavings s)))"
  by (simp add: savingsPercentage_def postgresMonthlyCost_def paybackPeriodMonths_def
      paybackCard_def)

theorem savings_zero_and_payback_infinity_witness:
  "pg_monthlyCost (postgres zeroSourceCost) = 0 \<and> monthlySavings zeroSourceCost \<le> 0 \<and>
   savingsPercentage zeroSourceCost = 0 \<and> paybackPeriodMonths zeroSourceCost = PosInf \<and>
   paybackCard zeroSourceCost = None \<and>
   monthlySavings highSourceCost > 0 \<and>
   paybackPeriodMonths highSourceCost = Finite 1 \<and>
   paybackCard highSourceCost = Some (MonthsText 1)"
proof -
  have c: "pg_monthlyCost (postgres zeroSourceCost) = 0"
    by (simp add: zeroSourceCost_def handleMonthlyCostChange_def)
  have t: "totalMonthlyCost zeroSourceCost = 6781" "totalMonthlyCost highSourceCost = 6781"
    by (rule totalMonthlyCost_initial_tidb;
        simp add: zeroSourceCost_def highSourceCost_def handleMonthlyCostChange_def)+
  have m: "monthlySavings zeroSourceCost \<le> 0"
    by (simp add: monthlySavings_def postgresMonthlyCost_def c t)
  have hc: "pg_monthlyCost (postgres highSourceCost) = 11781"
      "oneTimeCosts highSourceCost = 5000"
    by (simp_all add: oneTimeCosts_def highSourceCost_def handleMonthlyCostChange_def
        initialState_def)
  have h: "monthlySavings highSourceCost = 5000" "oneTimeCosts highSourceCost = 5000"
    by (simp_all add: monthlySavings_def postgresMonthlyCost_def t hc)
  from savings_zero_and_payback_infinity[of zeroSourceCost]
    savings_zero_and_payback_infinity[of highSourceCost] c m h
  show ?thesis by simp
qed

subsection \<open>The scenario of the specification\<close>

text \<open>
  Claim C8. For a source class of 8 vCPU, 2 instances, 1 read replica, a TiDB instance type
  of 16 vCPU, 200 connections, traffic spikes and a peak ratio of 3: the effective load is
  24, the candidate from CPU is max(3, ceil(24/16)) = max(3, 2) = 3, the candidate from
  connections is max(3, ceil(200/500)) = 3, the spike factor is 1.5 and the derived number
  of TiDB nodes is ceil(3 * 1.5) = 5.
\<close>

theorem scenario_sql_nodes:
  assumes "postgresVcpu s = 8" and "instanceCount (postgres s) = 2"
    and "readReplicas (postgres s) = 1" and "vcpuPerTidbNode s = 16"
    and "concurrentConnections (workload s) = 200"
    and "trafficSpikes (workload s)" and "peakRatio (workload s) = 3"
  shows "effectivePostgresVcpu s = 8 * 2 * (15 / 10) \<and>
         ceil (effectivePostgresVcpu s / vcpuPerTidbNode s) = 2 \<and>
         suggestedTidbNodesFromCpu s = 3 \<and>
         ceil (concurrentConnections (workload s) / 500) = 1 \<and>
         suggestedTidbNodesFromConn s = 3 \<and>
         baseTidbNodes s = 3 \<and>
         spikeFactor s = 15 / 10 \<and>
         tidbNodes (tidbCluster (recompute s)) = 5"
proof -
  have e: "effectivePostgresVcpu s = 24"
    using assms by (simp add: effectivePostgresVcpu_def readReplicaVcpu_def totalPostgresVcpu_def)
  have a: "ceil (effectivePostgresVcpu s / vcpuPerTidbNode s) = 2"
    using assms by (simp add: e ceil_def)
  have b: "ceil (concurrentConnections (workload s) / 500) = 1"
    using assms by (simp add: ceil_def)
  have base: "baseTidbNodes s = 3"
    by (simp add: baseTidbNodes_def suggestedTidbNodesFromCpu_def suggestedTidbNodesFromConn_def a b)
  have sp: "spikeFactor s = 15 / 10"
    using assms by (simp add: spikeFactor_def)
  have "tidbNodes (tidbCluster (recompute s)) = ceil (baseTidbNodes s * spikeFactor s)"
    by (simp add: effect_defs)
  also have "\<dots> = 5"
    by (simp add: base sp ceil_def)
  finally have n: "tidbNodes (tidbCluster (recompute s)) = 5" .
  have e': "effectivePostgresVcpu s = 8 * 2 * (15 / 10)"
    by (simp add: e)
  have fa: "suggestedTidbNodesFromCpu s = 3"
    by (simp add: suggestedTidbNodesFromCpu_def a)
  have fb: "suggestedTidbNodesFromConn s = 3"
    by (simp add: suggestedTidbNodesFromConn_def b)
  from e' a fa b fb base sp n show ?thesis by blast
qed

theorem scenario_sql_nodes_witness:
  "postgresVcpu scenarioState = 8 \<and> postgresMemory scenarioState = 32 \<and>
   vcpuPerTidbNode scenarioState = 16 \<and>
   suggestedTidbNodesFromCpu scenarioState = 3 \<and>
   suggestedTidbNodesFromConn scenarioState = 3 \<and>
   spikeFactor scenarioState = 15 / 10 \<and>
   tidbNodes (tidbCluster (recompute scenarioState)) = 5"
proof -
  have h: "postgresVcpu scenarioState = 8" "postgresMemory scenarioState = 32"
      "instanceCount (postgres scenarioState) = 2"
      "readReplicas (postgres scenarioState) = 1" "vcpuPerTidbNode scenarioState = 16"
      "concurrentConnections (workload scenarioState) = 200"
      "trafficSpikes (workload scenarioState)" "peakRatio (workload scenarioState) = 3"
    by (simp_all add: scenarioState_def handleInstanceTypeChange_def initialState_def
        postgresVcpu_def postgresMemory_def vcpuPerTidbNode_def catalog_defs Let_def)
  from scenario_sql_nodes[OF h(1) h(3-8)] h show ?thesis by simp
qed

subsection \<open>Missing catalog keys\<close>





text \<open>
  With a plain \<open>.\<close> a missing key throws, as in the comparison table's function; the
  catalog keys it is called with are present.
\<close>

lemma estimatedTidbNodes_examples:
  "estimatedTidbNodes ''db.unknown'' = Inl TypeError"
  "estimatedTidbNodes ''db.r5.4xlarge'' = Inr 3"
  by (simp_all add: estimatedTidbNodes_def bind_js_def member_def postgresInstanceTypes_def
      mk_def ceil_def)






subsection \<open>The cost recorded in a history entry\<close>



subsection \<open>Recomputing twice\<close>

lemma recompute_inputs:
  "postgres (recompute s) = postgres s"
  "workload (recompute s) = workload s"
  "storage (recompute s) = storage s"
  "operational (recompute s) = operational s"
  "pdNodes (tidbCluster (recompute s)) = pdNodes (tidbCluster s)"
  "dataReplicationFactor (tidbCluster (recompute s)) = dataReplicationFactor (tidbCluster s)"
  "tidbInstanceType (instances (recompute s)) = selectedTidbInstanceType s"
  by (simp_all add: effect_defs)

lemma derived_cong:
  assumes "postgres t = postgres s" and "workload t = workload s"
    and "pdNodes (tidbCluster t) = pdNodes (tidbCluster s)"
    and "dataReplicationFactor (tidbCluster t) = dataReplicationFactor (tidbCluster s)"
    and "vcpuPerTidbNode t = vcpuPerTidbNode s"
  shows "baseTidbNodes t = baseTidbNodes s"
    and "spikeFactor t = spikeFactor s"
    and "suggestedTikvNodes t = suggestedTikvNodes s"
    and "useTiflash_derived t = useTiflash_derived s"
    and "suggestedTiflashNodes t = suggestedTiflashNodes s"
    and "suggestedWorkerNodes t = suggestedWorkerNodes s"
    and "selectedTidbInstanceType t = selectedTidbInstanceType s"
  unfolding baseTidbNodes_def suggestedTidbNodesFromCpu_def
      suggestedTidbNodesFromConn_def effectivePostgresVcpu_def readReplicaVcpu_def
      totalPostgresVcpu_def postgresVcpu_def spikeFactor_def suggestedTikvNodes_def
      suggestedTikvNodesForStorage_def suggestedTikvNodesFromWrites_def useTiflash_derived_def
      suggestedTiflashNodes_def tiflashReplicas_def suggestedWorkerNodes_def totalComponents_def
      selectedTidbInstanceType_def postgresMemory_def assms
  by (rule refl)+

lemma recompute_twice:
  assumes "vcpuPerTidbNode (recompute s) = vcpuPerTidbNode s"
  shows "recompute (recompute s) = recompute s"
proof -
  note d = derived_cong[OF recompute_inputs(1,2,5,6) assms]
  have "autoCalculate (recompute s) = recompute s"
    unfolding autoCalculate_def[of "recompute s"] d recompute_inputs(1,2) previous_recompute
    by (simp add: effect_defs)
  then have "recompute (recompute s) = updateCostBreakdown (recompute s)"
    by (simp add: recompute_def[of "recompute s"])
  also have "\<dots> = recompute s"
    by (simp add: recompute_def updateCostBreakdown_def costBreakdownData_def cost_defs)
  finally show ?thesis .
qed

lemma tidbCluster_recompute:
  "tidbCluster (recompute t) = (tidbCluster t)
     \<lparr>tidbNodes := ceil (baseTidbNodes t * spikeFactor t),
      tikvNodes := ceil (suggestedTikvNodes t * writeHeavyFactor (readWriteRatio (workload t))),
      useTiflash := useTiflash_derived t,
      tiflashNodes := suggestedTiflashNodes t,
      k8sWorkerNodes := suggestedWorkerNodes t\<rparr>"
  by (simp add: effect_defs)

lemma instances_recompute:
  "instances (recompute t) = (instances t)\<lparr>tidbInstanceType := selectedTidbInstanceType t\<rparr>"
  by (simp add: effect_defs)

lemma selected_recompute: "selectedTidbInstanceType (recompute s) = selectedTidbInstanceType s"
  by (simp add: selectedTidbInstanceType_def postgresMemory_def recompute_inputs)

text \<open>
  Claim C2, as stated, fails. With 8 primary instances typed into the initial form (no
  change of the PostgreSQL instance type) the first recomputation reads 16 vCPU per TiDB
  node from \<open>c5.4xlarge\<close>, derives 8 TiDB nodes and selects \<open>r5.2xlarge\<close>; the second reads
  8 vCPU from \<open>r5.2xlarge\<close> and derives 14 nodes, at a different monthly cost.
\<close>

theorem recompute_twice_counterexample:
  "instanceType (postgres eightInstances) = previousInstanceType (comparisonData eightInstances) \<and>
   postgres (recompute eightInstances) = postgres eightInstances \<and>
   workload (recompute eightInstances) = workload eightInstances \<and>
   tidbNodes (tidbCluster (recompute eightInstances)) = 8 \<and>
   tidbNodes (tidbCluster (recompute (recompute eightInstances))) = 14 \<and>
   totalMonthlyCost (recompute eightInstances) = 8438 \<and>
   totalMonthlyCost (recompute (recompute eightInstances)) = 10808 \<and>
   recompute (recompute eightInstances) \<noteq> recompute eightInstances"
proof -
  let ?r = "recompute eightInstances"
  have p: "postgres eightInstances =
      \<lparr>instanceType = ''db.r5.2xlarge'', instanceCount = 8, storageGB = 1000, iops = 3000,
       readOps = 5000, writeOps = 1000, pg_monthlyCost = 18768, multiAZ = True,
       readReplicas = 1\<rparr>"
    by (simp add: eightInstances_def handleInstanceCountChange_def initialState_def Let_def
        catalog_defs)
  have w: "workload eightInstances = workload initialState"
      "tidbCluster eightInstances = tidbCluster initialState"
      "instances eightInstances = instances initialState"
      "storage eightInstances = storage initialState"
      "operational eightInstances = operational initialState"
      "comparisonData eightInstances = comparisonData initialState"
    by (simp_all add: eightInstances_def handleInstanceCountChange_def Let_def)
  have same: "instanceType (postgres eightInstances) =
              previousInstanceType (comparisonData eightInstances)"
    by (simp add: p w initialState_def)
  have tc1: "tidbCluster ?r =
      \<lparr>tidbNodes = 8, tikvNodes = 3, pdNodes = 3, tiflashNodes = 0, useTiflash = False,
       eksClusterCount = 1, k8sWorkerNodes = 10, availabilityZones = 3,
       dataReplicationFactor = 3\<rparr>"
    by (simp add: tidbCluster_recompute derive_defs catalog_defs p w initialState_def)
  have in1: "instances ?r =
      \<lparr>tidbInstanceType = ''r5.2xlarge'', tikvInstanceType = ''i3.4xlarge'',
       pdInstanceType = ''m5.4xlarge'', tiflashInstanceType = ''i3.8xlarge'',
       monitoringInstanceType = ''c5.2xlarge''\<rparr>"
    by (simp add: instances_recompute selectedTidbInstanceType_def postgresMemory_def
        catalog_defs p w initialState_def)
  have tc2: "tidbCluster (recompute ?r) =
      \<lparr>tidbNodes = 14, tikvNodes = 3, pdNodes = 3, tiflashNodes = 0, useTiflash = False,
       eksClusterCount = 1, k8sWorkerNodes = 14, availabilityZones = 3,
       dataReplicationFactor = 3\<rparr>"
    by (simp add: tidbCluster_recompute[of ?r] derive_defs catalog_defs recompute_inputs
        tc1 in1 p w initialState_def)
  have sel: "selectedTidbInstanceType eightInstances = ''r5.2xlarge''"
    by (simp add: selectedTidbInstanceType_def postgresMemory_def catalog_defs p)
  have in2: "instances (recompute ?r) = instances ?r"
    by (simp add: instances_recompute[of ?r] selected_recompute in1 sel)
  have so: "storage (recompute ?r) = storage initialState"
      "operational (recompute ?r) = operational initialState"
      "storage ?r = storage initialState" "operational ?r = operational initialState"
    by (simp_all add: recompute_inputs w)
  have c1: "totalMonthlyCost ?r = 8438"
    by (simp add: cost_defs tc1 in1 so(3,4) catalog_defs ebsCost_def calculateEbsCost_def
        ebsVolumeTypes_def gp3_def price_def initialState_def)
  have c2: "totalMonthlyCost (recompute ?r) = 10808"
    by (simp add: cost_defs tc2 in2 in1 so(1,2) catalog_defs ebsCost_def calculateEbsCost_def
        ebsVolumeTypes_def gp3_def price_def initialState_def)
  have ne: "recompute ?r \<noteq> ?r"
  proof
    assume "recompute ?r = ?r"
    then have "tidbCluster (recompute ?r) = tidbCluster ?r" by simp
    then show False by (simp add: tc1 tc2)
  qed
  from same ne show ?thesis
    by (simp add: recompute_inputs tc1 tc2 c1 c2)
qed

text \<open>
  Claim C2, amended. A second recomputation gives the state of the first whenever the TiDB
  instance type selected when the first starts has the vCPU count of the type the first
  selects; in every case a third recomputation gives the state of the second; and a
  recomputation whose PostgreSQL instance type equals the recorded previous one, run once
  or twice, leaves the history log as it was.
\<close>

theorem recompute_stabilises:
  "(vcpuPerTidbNode (recompute s) = vcpuPerTidbNode s \<longrightarrow>
      recompute (recompute s) = recompute s) \<and>
   recompute (recompute (recompute s)) = recompute (recompute s) \<and>
   (instanceType (postgres s) = previousInstanceType (comparisonData s) \<longrightarrow>
      history (comparisonData (recompute s)) = history (comparisonData s) \<and>
      history (comparisonData (recompute (recompute s))) = history (comparisonData s))"
proof (intro conjI impI)
  assume "vcpuPerTidbNode (recompute s) = vcpuPerTidbNode s"
  then show "recompute (recompute s) = recompute s" by (rule recompute_twice)
next
  have "vcpuPerTidbNode (recompute (recompute s)) = vcpuPerTidbNode (recompute s)"
    by (simp add: vcpuPerTidbNode_def recompute_inputs(7) selected_recompute)
  then show "recompute (recompute (recompute s)) = recompute (recompute s)"
    by (rule recompute_twice)
next
  assume a: "instanceType (postgres s) = previousInstanceType (comparisonData s)"
  then show h1: "history (comparisonData (recompute s)) = history (comparisonData s)"
    by (simp add: history_recompute)
  show "history (comparisonData (recompute (recompute s))) = history (comparisonData s)"
    by (simp add: history_recompute[of "recompute s"] previous_recompute recompute_inputs(1) h1)
qed

theorem recompute_stabilises_witness:
  "vcpuPerTidbNode (recompute stableSelection) = vcpuPerTidbNode stableSelection \<and>
   instanceType (postgres stableSelection) =
     previousInstanceType (comparisonData stableSelection) \<and>
   recompute (recompute stableSelection) = recompute stableSelection \<and>
   history (comparisonData (recompute (recompute stableSelection))) = []"
proof -
  have v: "vcpuPerTidbNode (recompute stableSelection) = vcpuPerTidbNode stableSelection"
    by (simp add: vcpuPerTidbNode_def recompute_inputs(7) selectedTidbInstanceType_def
        postgresMemory_def catalog_defs stableSelection_def handleTidbInstanceTypeChange_def
        initialState_def)
  have i: "instanceType (postgres stableSelection) =
           previousInstanceType (comparisonData stableSelection)"
      "history (comparisonData stableSelection) = []"
    by (simp_all add: stableSelection_def handleTidbInstanceTypeChange_def initialState_def)
  from recompute_stabilises[of stableSelection] v i show ?thesis by simp
qed

end
